theory Spec2Isabelle
  imports Complex_Main "HOL-Library.Char_ord" "HOL-Library.List_Lexorder"
begin

section \<open>JavaScript numbers\<close>

text \<open>
  The pipeline of \<^verbatim>\<open>normalized-trend.js\<close> computes with JavaScript numbers. A number is
  modelled as a real, or one of the three special values that the arithmetic of the
  file can produce: \<^verbatim>\<open>Infinity\<close>, \<^verbatim>\<open>-Infinity\<close> and \<^verbatim>\<open>NaN\<close>. Division by zero is therefore a
  value of the model, as it is in the source, and not the HOL convention \<open>x / 0 = 0\<close>.
  Rounding of binary64, overflow of finite results and the sign of zero are outside the
  model: a finite result is the exact real, and zero is the positive zero.
\<close>

datatype jsnum = Fin real | PInf | NInf | NaN

fun js_neg :: "jsnum \<Rightarrow> jsnum" where
  "js_neg (Fin x) = Fin (- x)"
| "js_neg PInf = NInf"
| "js_neg NInf = PInf"
| "js_neg NaN = NaN"

fun js_add :: "jsnum \<Rightarrow> jsnum \<Rightarrow> jsnum" where
  "js_add NaN _ = NaN"
| "js_add _ NaN = NaN"
| "js_add (Fin x) (Fin y) = Fin (x + y)"
| "js_add (Fin _) PInf = PInf"
| "js_add (Fin _) NInf = NInf"
| "js_add PInf (Fin _) = PInf"
| "js_add PInf PInf = PInf"
| "js_add PInf NInf = NaN"
| "js_add NInf (Fin _) = NInf"
| "js_add NInf NInf = NInf"
| "js_add NInf PInf = NaN"

definition js_sub :: "jsnum \<Rightarrow> jsnum \<Rightarrow> jsnum" where
  "js_sub a b = js_add a (js_neg b)"

fun js_mul :: "jsnum \<Rightarrow> jsnum \<Rightarrow> jsnum" where
  "js_mul NaN _ = NaN"
| "js_mul _ NaN = NaN"
| "js_mul (Fin x) (Fin y) = Fin (x * y)"
| "js_mul (Fin x) PInf = (if x = 0 then NaN else if 0 < x then PInf else NInf)"
| "js_mul (Fin x) NInf = (if x = 0 then NaN else if 0 < x then NInf else PInf)"
| "js_mul PInf (Fin y) = (if y = 0 then NaN else if 0 < y then PInf else NInf)"
| "js_mul NInf (Fin y) = (if y = 0 then NaN else if 0 < y then NInf else PInf)"
| "js_mul PInf PInf = PInf"
| "js_mul PInf NInf = NInf"
| "js_mul NInf PInf = NInf"
| "js_mul NInf NInf = PInf"

fun js_div :: "jsnum \<Rightarrow> jsnum \<Rightarrow> jsnum" where
  "js_div NaN _ = NaN"
| "js_div _ NaN = NaN"
| "js_div (Fin x) (Fin y) =
     (if y = 0 then (if x = 0 then NaN else if 0 < x then PInf else NInf)
      else Fin (x / y))"
| "js_div (Fin _) PInf = Fin 0"
| "js_div (Fin _) NInf = Fin 0"
| "js_div PInf (Fin y) = (if 0 \<le> y then PInf else NInf)"
| "js_div NInf (Fin y) = (if 0 \<le> y then NInf else PInf)"
| "js_div PInf PInf = NaN"
| "js_div PInf NInf = NaN"
| "js_div NInf PInf = NaN"
| "js_div NInf NInf = NaN"

text \<open>The relational operators: every comparison with \<^verbatim>\<open>NaN\<close> is false.\<close>

fun js_lt :: "jsnum \<Rightarrow> jsnum \<Rightarrow> bool" where
  "js_lt NaN _ = False"
| "js_lt _ NaN = False"
| "js_lt (Fin x) (Fin y) = (x < y)"
| "js_lt (Fin _) PInf = True"
| "js_lt (Fin _) NInf = False"
| "js_lt PInf _ = False"
| "js_lt NInf NInf = False"
| "js_lt NInf _ = True"

fun js_le :: "jsnum \<Rightarrow> jsnum \<Rightarrow> bool" where
  "js_le NaN _ = False"
| "js_le _ NaN = False"
| "js_le a b = (if a = b then True else js_lt a b)"

definition js_ge :: "jsnum \<Rightarrow> jsnum \<Rightarrow> bool" where
  "js_ge a b = js_le b a"

text \<open>
  \<^verbatim>\<open>Math.max(...xs)\<close> and \<^verbatim>\<open>Math.min(...xs)\<close>: \<^verbatim>\<open>-Infinity\<close> and \<^verbatim>\<open>Infinity\<close> for no argument,
  \<^verbatim>\<open>NaN\<close> as soon as one argument is \<^verbatim>\<open>NaN\<close>. (The limit an engine puts on the number of
  spread arguments is outside the model.)
\<close>

fun js_max2 :: "jsnum \<Rightarrow> jsnum \<Rightarrow> jsnum" where
  "js_max2 NaN _ = NaN"
| "js_max2 _ NaN = NaN"
| "js_max2 a b = (if js_lt a b then b else a)"

fun js_min2 :: "jsnum \<Rightarrow> jsnum \<Rightarrow> jsnum" where
  "js_min2 NaN _ = NaN"
| "js_min2 _ NaN = NaN"
| "js_min2 a b = (if js_lt b a then b else a)"

primrec Math_max :: "jsnum list \<Rightarrow> jsnum" where
  "Math_max [] = NInf"
| "Math_max (x # xs) = js_max2 x (Math_max xs)"

primrec Math_min :: "jsnum list \<Rightarrow> jsnum" where
  "Math_min [] = PInf"
| "Math_min (x # xs) = js_min2 x (Math_min xs)"


section \<open>Dates\<close>

text \<open>
  \<^verbatim>\<open>new Date(s).getTime()\<close> belongs to the platform. Every general statement below takes
  it as a parameter \<open>getTime\<close>, so it holds for whatever the platform parses. For runs on
  concrete timestamps, \<open>Date_getTime\<close> implements the two UTC forms
  \<^verbatim>\<open>YYYY-MM-DDTHH:mm:ssZ\<close> and \<^verbatim>\<open>YYYY-MM-DDTHH:mm:ss.sssZ\<close> of the ECMAScript date-time string
  format: milliseconds since 1970-01-01T00:00:00Z. On any other string the model answers
  \<^verbatim>\<open>NaN\<close> (an invalid date); what an engine does with the other forms is not modelled.
\<close>

definition digit :: "char \<Rightarrow> nat option" where
  "digit c = (let n = (of_char c :: nat) in if 48 \<le> n \<and> n \<le> 57 then Some (n - 48) else None)"

fun digits :: "nat \<Rightarrow> string \<Rightarrow> nat option" where
  "digits acc [] = Some acc"
| "digits acc (c # cs) = (case digit c of None \<Rightarrow> None | Some d \<Rightarrow> digits (10 * acc + d) cs)"

definition is_leap :: "nat \<Rightarrow> bool" where
  "is_leap y = (if y mod 400 = 0 then True else if y mod 100 = 0 then False else y mod 4 = 0)"

definition days_in_month :: "nat \<Rightarrow> nat \<Rightarrow> nat" where
  "days_in_month y m =
     (if m = 2 then (if is_leap y then 29 else 28)
      else if m = 4 \<or> m = 6 \<or> m = 9 \<or> m = 11 then 30 else 31)"

definition days_from_civil :: "int \<Rightarrow> int \<Rightarrow> int \<Rightarrow> int" where
  "days_from_civil y m d =
     (let y' = (if m \<le> 2 then y - 1 else y);
          era = y' div 400;
          yoe = y' - era * 400;
          doy = (153 * (if 2 < m then m - 3 else m + 9) + 2) div 5 + d - 1;
          doe = yoe * 365 + yoe div 4 - yoe div 100 + doy
      in era * 146097 + doe - 719468)"

definition valid_time :: "nat \<Rightarrow> nat \<Rightarrow> nat \<Rightarrow> nat \<Rightarrow> bool" where
  "valid_time h mi sec ms =
     (if h = 24 then mi = 0 \<and> sec = 0 \<and> ms = 0 else h \<le> 23 \<and> mi \<le> 59 \<and> sec \<le> 59)"

definition Date_getTime :: "string \<Rightarrow> jsnum" where
  "Date_getTime s =
     (let n = length s in
      if n = 20 \<or> n = 24 then
        (if s ! 4 = CHR ''-'' \<and> s ! 7 = CHR ''-'' \<and> s ! 10 = CHR ''T'' \<and> s ! 13 = CHR '':''
            \<and> s ! 16 = CHR '':'' \<and> s ! (n - 1) = CHR ''Z'' \<and> (n = 20 \<or> s ! 19 = CHR ''.'')
         then
           (case (digits 0 (take 4 s), digits 0 (take 2 (drop 5 s)), digits 0 (take 2 (drop 8 s)),
                  digits 0 (take 2 (drop 11 s)), digits 0 (take 2 (drop 14 s)),
                  digits 0 (take 2 (drop 17 s)), digits 0 (take (n - 21) (drop 20 s))) of
              (Some y, Some mo, Some d, Some h, Some mi, Some sec, Some ms) \<Rightarrow>
                (if 1 \<le> mo \<and> mo \<le> 12 \<and> 1 \<le> d \<and> d \<le> days_in_month y mo \<and> valid_time h mi sec ms
                 then Fin (of_int
                   (days_from_civil (int y) (int mo) (int d) * 86400000
                      + int h * 3600000 + int mi * 60000 + int sec * 1000 + int ms))
                 else NaN)
            | _ \<Rightarrow> NaN)
         else NaN)
      else NaN)"


section \<open>The series aligner: \<^verbatim>\<open>processChartData\<close>\<close>

text \<open>
  One fetched series: \<^verbatim>\<open>{ symbol, timestamps, prices }\<close>. Timestamps are strings. A
  price is a finite number as JSON carries it; an array element that is \<^verbatim>\<open>undefined\<close>
  is \<open>None\<close>, and so is a read past the end of the array.
\<close>

record crypto =
  symbol :: string
  timestamps :: "string list"
  prices :: "real option list"

definition array_get :: "'a option list \<Rightarrow> nat \<Rightarrow> 'a option" where
  "array_get xs i = (if i < length xs then xs ! i else None)"

text \<open>
  \<^verbatim>\<open>allTimestamps\<close> is a \<^verbatim>\<open>Set\<close>: it keeps its elements in the order of their first insertion,
  and \<^verbatim>\<open>Array.from\<close> reads them in that order.
\<close>

definition Set_add :: "string list \<Rightarrow> string \<Rightarrow> string list" where
  "Set_add s x = (if x \<in> set s then s else s @ [x])"

definition allTimestamps :: "crypto list \<Rightarrow> string list" where
  "allTimestamps cryptoData = foldl (\<lambda>s c. foldl Set_add s (timestamps c)) [] cryptoData"

text \<open>
  \<^verbatim>\<open>Array.from(allTimestamps).sort()\<close>: \<^verbatim>\<open>sort\<close> is called with no comparator, so it orders
  the strings by their code units. That is the order of \<^typ>\<open>string\<close> here (the characters
  by their codes, the strings lexicographically, a proper prefix first).
\<close>

definition labels_of :: "crypto list \<Rightarrow> string list" where
  "labels_of cryptoData = sort (allTimestamps cryptoData)"

text \<open>
  \<^verbatim>\<open>priceMap\<close>: the loop stores \<^verbatim>\<open>prices[i]\<close> under \<^verbatim>\<open>timestamps[i]\<close>, a later index overwriting
  an earlier one. The source only ever asks whether \<^verbatim>\<open>priceMap[k] !== undefined\<close> and reads
  the number, so storing \<^verbatim>\<open>undefined\<close> is the same as having no entry. The object is a
  map from timestamps: a key is never the name of a member of \<^verbatim>\<open>Object.prototype\<close>.
\<close>

definition priceMap_upto :: "crypto \<Rightarrow> nat \<Rightarrow> (string \<rightharpoonup> real)" where
  "priceMap_upto c n =
     foldl (\<lambda>m i. m(timestamps c ! i := array_get (prices c) i)) Map.empty [0..<n]"

definition priceMap :: "crypto \<Rightarrow> (string \<rightharpoonup> real)" where
  "priceMap c = priceMap_upto c (length (timestamps c))"

text \<open>
  The two searches for the nearest known timestamp. \<open>find_before m labels i\<close> is the
  loop \<^verbatim>\<open>for (j = i - 1; j >= 0; j--)\<close> and \<open>find_after m labels (i + 1)\<close> the loop
  \<^verbatim>\<open>for (j = i + 1; j < labels.length; j++)\<close>; \<open>None\<close> is the initial \<^verbatim>\<open>null\<close>. Each returns the
  timestamp found together with \<^verbatim>\<open>priceMap\<close>'s entry for it, which is what the source
  reads again afterwards.
\<close>

fun find_before :: "(string \<rightharpoonup> real) \<Rightarrow> string list \<Rightarrow> nat \<Rightarrow> (string \<times> real) option" where
  "find_before m labels 0 = None"
| "find_before m labels (Suc j) =
     (case m (labels ! j) of
        Some p \<Rightarrow> Some (labels ! j, p)
      | None \<Rightarrow> find_before m labels j)"

function find_after :: "(string \<rightharpoonup> real) \<Rightarrow> string list \<Rightarrow> nat \<Rightarrow> (string \<times> real) option" where
  "find_after m labels j =
     (if j < length labels then
        (case m (labels ! j) of
           Some p \<Rightarrow> Some (labels ! j, p)
         | None \<Rightarrow> find_after m labels (Suc j))
      else None)"
  by pat_completeness auto
termination
  by (relation "measure (\<lambda>(m, labels, j). length labels - j)") auto

declare find_after.simps [simp del]

text \<open>
  \<^verbatim>\<open>if (beforeTimestamp && afterTimestamp)\<close> tests the timestamps for truthiness: \<^verbatim>\<open>null\<close> is
  falsy, and so is the empty string.
\<close>

fun truthy :: "(string \<times> real) option \<Rightarrow> bool" where
  "truthy None = False"
| "truthy (Some (s, p)) = (s \<noteq> [])"

text \<open>
  The body of the loop over \<^verbatim>\<open>labels\<close>: the value pushed on \<^verbatim>\<open>interpolatedPrices\<close> for
  index \<open>i\<close>. \<open>None\<close> is \<^verbatim>\<open>null\<close>.
\<close>

definition interpolatedPrice ::
  "(string \<Rightarrow> jsnum) \<Rightarrow> (string \<rightharpoonup> real) \<Rightarrow> string list \<Rightarrow> nat \<Rightarrow> jsnum option" where
  "interpolatedPrice getTime m labels i =
     (let timestamp = labels ! i in
      case m timestamp of
        Some p \<Rightarrow> Some (Fin p)
      | None \<Rightarrow>
          (let beforeFound = find_before m labels i;
               afterFound = find_after m labels (Suc i)
           in if truthy beforeFound \<and> truthy afterFound then
                (case (beforeFound, afterFound) of
                   (Some (beforeTimestamp, beforePrice), Some (afterTimestamp, afterPrice)) \<Rightarrow>
                     (let beforeTime = getTime beforeTimestamp;
                          afterTime = getTime afterTimestamp;
                          currentTime = getTime timestamp;
                          ratio = js_div (js_sub currentTime beforeTime) (js_sub afterTime beforeTime)
                      in Some (js_add (Fin beforePrice)
                                 (js_mul ratio (js_sub (Fin afterPrice) (Fin beforePrice)))))
                 | _ \<Rightarrow> None)
              else if truthy beforeFound then
                (case beforeFound of Some (_, beforePrice) \<Rightarrow> Some (Fin beforePrice) | None \<Rightarrow> None)
              else if truthy afterFound then
                (case afterFound of Some (_, afterPrice) \<Rightarrow> Some (Fin afterPrice) | None \<Rightarrow> None)
              else None))"

record processed_crypto =
  pc_symbol :: string
  interpolatedPrices :: "jsnum option list"

record chart_data =
  labels :: "string list"
  processedCryptos :: "processed_crypto list"

definition processChartData :: "(string \<Rightarrow> jsnum) \<Rightarrow> crypto list \<Rightarrow> chart_data" where
  "processChartData getTime cryptoData =
     (let labels = labels_of cryptoData in
      \<lparr> labels = labels,
        processedCryptos =
          map (\<lambda>c. \<lparr> pc_symbol = symbol c,
                     interpolatedPrices =
                       map (interpolatedPrice getTime (priceMap c) labels) [0..<length labels] \<rparr>)
              cryptoData \<rparr>)"


section \<open>The normalizers\<close>

text \<open>
  \<^verbatim>\<open>renderZeroBasedChart\<close> and \<^verbatim>\<open>renderMinMaxChart\<close> compute, for each processed series, the
  array \<^verbatim>\<open>normalizedPrices\<close> that becomes the dataset of the chart. The two functions below
  are those computations; the rest of the two renderers configures the chart.
\<close>

text \<open>
  \<open>interpolated\<close> is the series' \<^verbatim>\<open>interpolatedPrices\<close>; \<open>validPrices\<close> is
  \<^verbatim>\<open>interpolatedPrices.filter(price => price !== null)\<close>.
\<close>

primrec validPrices :: "jsnum option list \<Rightarrow> jsnum list" where
  "validPrices [] = []"
| "validPrices (price # rest) =
     (case price of None \<Rightarrow> validPrices rest | Some v \<Rightarrow> v # validPrices rest)"

definition zeroBased_normalizedPrices :: "jsnum option list \<Rightarrow> jsnum option list" where
  "zeroBased_normalizedPrices interpolated =
     (let minPrice = Fin 0;
          maxPrice = Math_max (validPrices interpolated)
      in map (\<lambda>price. case price of
                None \<Rightarrow> None
              | Some v \<Rightarrow>
                  Some (js_mul (js_div (js_sub v minPrice) (js_sub maxPrice minPrice)) (Fin 100)))
           interpolated)"

definition minMax_normalizedPrices :: "jsnum option list \<Rightarrow> jsnum option list" where
  "minMax_normalizedPrices interpolated =
     (let minPrice = Math_min (validPrices interpolated);
          maxPrice = Math_max (validPrices interpolated)
      in map (\<lambda>price. case price of
                None \<Rightarrow> None
              | Some v \<Rightarrow>
                  Some (js_mul (js_div (js_sub v minPrice) (js_sub maxPrice minPrice)) (Fin 100)))
           interpolated)"

text \<open>Ranges of normalized values: \<^verbatim>\<open>null\<close> is in every range, a special value in none.\<close>

fun in_range :: "real \<Rightarrow> real \<Rightarrow> jsnum option \<Rightarrow> bool" where
  "in_range lo hi None = True"
| "in_range lo hi (Some (Fin r)) = (lo \<le> r \<and> r \<le> hi)"
| "in_range lo hi (Some _) = False"

fun finite_num :: "jsnum \<Rightarrow> bool" where
  "finite_num (Fin _) = True"
| "finite_num _ = False"

fun nonneg_num :: "jsnum \<Rightarrow> bool" where
  "nonneg_num (Fin r) = (0 \<le> r)"
| "nonneg_num _ = False"


section \<open>The range filter: \<^verbatim>\<open>fetchHistoricalData\<close>\<close>

text \<open>
  The response of the history endpoint, \<^verbatim>\<open>{ timestamps, prices }\<close>, and the clock are
  inputs of the model. \<open>cutoffTime\<close> is assigned in three branches only and stays
  \<^verbatim>\<open>undefined\<close> (\<open>None\<close>) for any other range. The comparison \<^verbatim>\<open>timestamp >= cutoffTime\<close>
  converts both operands to numbers: a date to its time value, \<^verbatim>\<open>undefined\<close> to \<^verbatim>\<open>NaN\<close>.
\<close>

record history_data =
  data_timestamps :: "string list"
  data_prices :: "real option list"

definition cutoffTime_of :: "real \<Rightarrow> string \<Rightarrow> jsnum option" where
  "cutoffTime_of currentTime timeRange =
     (if timeRange = ''24h'' then Some (Fin (currentTime - 24 * 60 * 60 * 1000))
      else if timeRange = ''7d'' then Some (Fin (currentTime - 7 * 24 * 60 * 60 * 1000))
      else if timeRange = ''1m'' then Some (Fin (currentTime - 30 * 24 * 60 * 60 * 1000))
      else None)"

fun ToNumber :: "jsnum option \<Rightarrow> jsnum" where
  "ToNumber None = NaN"
| "ToNumber (Some t) = t"

definition fetchHistoricalData ::
  "(string \<Rightarrow> jsnum) \<Rightarrow> real \<Rightarrow> history_data \<Rightarrow> string \<Rightarrow> string \<Rightarrow> crypto" where
  "fetchHistoricalData getTime currentTime data symb timeRange =
     (let cutoffTime = cutoffTime_of currentTime timeRange;
          kept = filter (\<lambda>i. let timestamp = getTime (data_timestamps data ! i)
                              in js_ge timestamp (ToNumber cutoffTime)
                                   \<and> js_le timestamp (Fin currentTime))
                        [0..<length (data_timestamps data)]
      in \<lparr> symbol = symb,
           timestamps = map (\<lambda>i. data_timestamps data ! i) kept,
           prices = map (array_get (data_prices data)) kept \<rparr>)"


section \<open>Example inputs\<close>

text \<open>
  The scenario of the specification: a series with points at \<open>t1\<close> and \<open>t3\<close>, another
  with one point at \<open>t2\<close>, where \<open>t1 < t2 < t3\<close> are one hour apart.
\<close>

definition scenario_btc :: crypto where
  "scenario_btc = \<lparr> symbol = ''btc'',
      timestamps = [''2024-05-01T10:00:00Z'', ''2024-05-01T12:00:00Z''],
      prices = [Some 100, Some 110] \<rparr>"

definition scenario_eth :: crypto where
  "scenario_eth = \<lparr> symbol = ''eth'',
      timestamps = [''2024-05-01T11:00:00Z''],
      prices = [Some 50] \<rparr>"

text \<open>
  Two series whose timestamps are written with and without the milliseconds: the instants
  are 12:00:00.000, 12:00:00.500 and 12:00:01.000.
\<close>

definition mixed_btc :: crypto where
  "mixed_btc = \<lparr> symbol = ''btc'',
      timestamps = [''2024-05-01T12:00:00.500Z'', ''2024-05-01T12:00:01Z''],
      prices = [Some 100, Some 110] \<rparr>"

definition mixed_eth :: crypto where
  "mixed_eth = \<lparr> symbol = ''eth'',
      timestamps = [''2024-05-01T12:00:00Z''],
      prices = [Some 50] \<rparr>"


section \<open>Properties of the aligner\<close>

subsection \<open>The timeline\<close>

text \<open>
  What the code does: the timeline holds every timestamp of every series once, in the
  order of the strings.
\<close>

lemma set_foldl_Set_add: "set (foldl Set_add s xs) = set s \<union> set xs"
  by (induction xs arbitrary: s) (auto simp: Set_add_def)

lemma distinct_foldl_Set_add: "distinct s \<Longrightarrow> distinct (foldl Set_add s xs)"
  by (induction xs arbitrary: s) (auto simp: Set_add_def)

lemma set_foldl_series:
  "set (foldl (\<lambda>s c. foldl Set_add s (timestamps c)) s0 cs) = set s0 \<union> (\<Union>c\<in>set cs. set (timestamps c))"
  by (induction cs arbitrary: s0) (auto simp: set_foldl_Set_add)

lemma distinct_foldl_series:
  "distinct s0 \<Longrightarrow> distinct (foldl (\<lambda>s c. foldl Set_add s (timestamps c)) s0 cs)"
  by (induction cs arbitrary: s0) (auto simp: distinct_foldl_Set_add)

lemma set_labels_of: "set (labels_of cs) = (\<Union>c\<in>set cs. set (timestamps c))"
  by (simp add: labels_of_def allTimestamps_def set_foldl_series)

lemma distinct_labels_of: "distinct (labels_of cs)"
  by (simp add: labels_of_def allTimestamps_def distinct_foldl_series)

lemma sorted_labels_of: "sorted (labels_of cs)"
  by (simp add: labels_of_def)

subsection \<open>The price map\<close>

text \<open>An entry of \<^verbatim>\<open>priceMap\<close> is the price of the last point of the series at that timestamp.\<close>

lemma priceMap_upto_Suc:
  "priceMap_upto c (Suc n) = (priceMap_upto c n)(timestamps c ! n := array_get (prices c) n)"
  by (simp add: priceMap_upto_def)

lemma priceMap_upto_0: "priceMap_upto c 0 = Map.empty"
  by (simp add: priceMap_upto_def)

lemma priceMap_upto_absent:
  "(\<forall>i<n. timestamps c ! i \<noteq> t) \<Longrightarrow> priceMap_upto c n t = None"
  by (induction n) (auto simp add: priceMap_upto_Suc priceMap_upto_0)

lemma priceMap_upto_last:
  "i < n \<Longrightarrow> (\<forall>j. i < j \<and> j < n \<longrightarrow> timestamps c ! j \<noteq> timestamps c ! i)
     \<Longrightarrow> priceMap_upto c n (timestamps c ! i) = array_get (prices c) i"
proof (induction n)
  case 0
  then show ?case by simp
next
  case (Suc n)
  show ?case
  proof (cases "i = n")
    case True
    then show ?thesis by (simp add: priceMap_upto_Suc)
  next
    case False
    with Suc.prems have "i < n" by simp
    moreover from Suc.prems have "\<forall>j. i < j \<and> j < n \<longrightarrow> timestamps c ! j \<noteq> timestamps c ! i" by simp
    ultimately have "priceMap_upto c n (timestamps c ! i) = array_get (prices c) i"
      by (rule Suc.IH)
    moreover from Suc.prems \<open>i < n\<close> have "timestamps c ! n \<noteq> timestamps c ! i" by simp
    ultimately show ?thesis by (simp add: priceMap_upto_Suc)
  qed
qed

lemma priceMap_last:
  "i < length (timestamps c)
     \<Longrightarrow> (\<forall>j. i < j \<and> j < length (timestamps c) \<longrightarrow> timestamps c ! j \<noteq> timestamps c ! i)
     \<Longrightarrow> priceMap c (timestamps c ! i) = array_get (prices c) i"
  unfolding priceMap_def by (rule priceMap_upto_last)

lemma priceMap_absent: "t \<notin> set (timestamps c) \<Longrightarrow> priceMap c t = None"
  unfolding priceMap_def by (rule priceMap_upto_absent) auto

lemma priceMap_Some_in: "priceMap c t = Some p \<Longrightarrow> t \<in> set (timestamps c)"
  using priceMap_absent [of t c] by auto

lemma priceMap_no_points: "timestamps c = [] \<Longrightarrow> priceMap c = Map.empty"
  by (simp add: priceMap_def priceMap_upto_0)

subsection \<open>The searches for the nearest known point\<close>

lemma find_before_none:
  "(\<forall>j<n. m (L ! j) = None) \<Longrightarrow> find_before m L n = None"
  by (induction n) simp_all

lemma find_before_nearest:
  "l < n \<Longrightarrow> m (L ! l) = Some p \<Longrightarrow> (\<forall>j. l < j \<and> j < n \<longrightarrow> m (L ! j) = None)
     \<Longrightarrow> find_before m L n = Some (L ! l, p)"
proof (induction n)
  case 0
  then show ?case by simp
next
  case (Suc n)
  show ?case
  proof (cases "l = n")
    case True
    with Suc.prems show ?thesis by simp
  next
    case False
    with Suc.prems have "l < n" by simp
    with Suc.prems have "m (L ! n) = None" by simp
    moreover have "find_before m L n = Some (L ! l, p)"
      using Suc.IH \<open>l < n\<close> Suc.prems by simp
    ultimately show ?thesis by simp
  qed
qed

lemma find_after_none:
  "(\<forall>j. i \<le> j \<and> j < length L \<longrightarrow> m (L ! j) = None) \<Longrightarrow> find_after m L i = None"
proof (induction m L i rule: find_after.induct)
  case (1 m L j)
  show ?case
  proof (cases "j < length L")
    case True
    with "1.prems" have here: "m (L ! j) = None" by simp
    have "find_after m L (Suc j) = None"
      using "1.IH" True here "1.prems" by simp
    with True here show ?thesis by (subst find_after.simps) simp
  next
    case False
    then show ?thesis by (subst find_after.simps) simp
  qed
qed

lemma find_after_nearest:
  "i \<le> f \<Longrightarrow> f < length L \<Longrightarrow> m (L ! f) = Some p
     \<Longrightarrow> (\<forall>j. i \<le> j \<and> j < f \<longrightarrow> m (L ! j) = None)
     \<Longrightarrow> find_after m L i = Some (L ! f, p)"
proof (induction m L i rule: find_after.induct)
  case (1 m L j)
  from "1.prems" have inb: "j < length L" by simp
  show ?case
  proof (cases "j = f")
    case True
    with "1.prems" inb show ?thesis by (subst find_after.simps) simp
  next
    case False
    with "1.prems" have lt: "j < f" by simp
    with "1.prems" have here: "m (L ! j) = None" by simp
    have "find_after m L (Suc j) = Some (L ! f, p)"
      using "1.IH" inb here lt "1.prems" by simp
    with inb here show ?thesis by (subst find_after.simps) simp
  qed
qed

subsection \<open>The aligned value, case by case\<close>

lemma labels_processChartData: "labels (processChartData getTime cryptoData) = labels_of cryptoData"
  by (simp add: processChartData_def Let_def)

lemma length_processedCryptos:
  "length (processedCryptos (processChartData getTime cryptoData)) = length cryptoData"
  by (simp add: processChartData_def Let_def)

lemma interpolatedPrices_nth:
  "k < length cryptoData \<Longrightarrow> i < length (labels_of cryptoData)
     \<Longrightarrow> interpolatedPrices (processedCryptos (processChartData getTime cryptoData) ! k) ! i
         = interpolatedPrice getTime (priceMap (cryptoData ! k)) (labels_of cryptoData) i"
  by (simp add: processChartData_def Let_def)

lemma length_interpolatedPrices:
  "k < length cryptoData
     \<Longrightarrow> length (interpolatedPrices (processedCryptos (processChartData getTime cryptoData) ! k))
         = length (labels_of cryptoData)"
  by (simp add: processChartData_def Let_def)

lemma interpolatedPrice_exact:
  "m (L ! i) = Some p \<Longrightarrow> interpolatedPrice getTime m L i = Some (Fin p)"
  by (simp add: interpolatedPrice_def)

lemma interpolatedPrice_only_after:
  "m (L ! i) = None \<Longrightarrow> find_before m L i = None
     \<Longrightarrow> find_after m L (Suc i) = Some (t, p) \<Longrightarrow> t \<noteq> []
     \<Longrightarrow> interpolatedPrice getTime m L i = Some (Fin p)"
  by (simp add: interpolatedPrice_def)

lemma interpolatedPrice_only_before:
  "m (L ! i) = None \<Longrightarrow> find_before m L i = Some (t, p) \<Longrightarrow> t \<noteq> []
     \<Longrightarrow> find_after m L (Suc i) = None
     \<Longrightarrow> interpolatedPrice getTime m L i = Some (Fin p)"
  by (simp add: interpolatedPrice_def)

lemma interpolatedPrice_neither:
  "m (L ! i) = None \<Longrightarrow> find_before m L i = None
     \<Longrightarrow> find_after m L (Suc i) = None
     \<Longrightarrow> interpolatedPrice getTime m L i = None"
  by (simp add: interpolatedPrice_def)

lemma interpolatedPrice_both:
  "m (L ! i) = None \<Longrightarrow> find_before m L i = Some (t0, p0) \<Longrightarrow> t0 \<noteq> []
     \<Longrightarrow> find_after m L (Suc i) = Some (t1, p1) \<Longrightarrow> t1 \<noteq> []
     \<Longrightarrow> interpolatedPrice getTime m L i =
           Some (js_add (Fin p0)
                  (js_mul (js_div (js_sub (getTime (L ! i)) (getTime t0))
                                  (js_sub (getTime t1) (getTime t0)))
                          (js_sub (Fin p1) (Fin p0))))"
  by (simp add: interpolatedPrice_def Let_def)


section \<open>Exact values\<close>

text \<open>
  Claim C5. If a series has a point at timestamp \<open>t\<close> with price \<open>p\<close> (and, should the
  series carry several points at \<open>t\<close>, this is the last of them), then \<open>t\<close> is on the
  timeline, and at the timeline index of \<open>t\<close> the aligned value of the series is exactly
  \<open>p\<close>: no interpolation is applied at a known point.
\<close>

theorem exact_value_preservation:
  assumes "k < length cryptoData"
    and "n < length (timestamps (cryptoData ! k))"
    and "\<forall>j. n < j \<and> j < length (timestamps (cryptoData ! k))
           \<longrightarrow> timestamps (cryptoData ! k) ! j \<noteq> timestamps (cryptoData ! k) ! n"
    and "array_get (prices (cryptoData ! k)) n = Some p"
  shows "(\<exists>i < length (labels (processChartData getTime cryptoData)).
            labels (processChartData getTime cryptoData) ! i = timestamps (cryptoData ! k) ! n)
       \<and> (\<forall>i < length (labels (processChartData getTime cryptoData)).
            labels (processChartData getTime cryptoData) ! i = timestamps (cryptoData ! k) ! n
            \<longrightarrow> interpolatedPrices (processedCryptos (processChartData getTime cryptoData) ! k) ! i
                  = Some (Fin p))"
proof -
  let ?c = "cryptoData ! k" and ?L = "labels_of cryptoData"
  have known: "priceMap ?c (timestamps ?c ! n) = Some p"
    using assms(2,3,4) by (simp add: priceMap_last)
  have "timestamps ?c ! n \<in> set (timestamps ?c)"
    using assms(2) by simp
  moreover have "?c \<in> set cryptoData"
    using assms(1) by simp
  ultimately have "timestamps ?c ! n \<in> set ?L"
    unfolding set_labels_of by blast
  then have ex: "\<exists>i < length ?L. ?L ! i = timestamps ?c ! n"
    by (simp add: in_set_conv_nth)
  have "interpolatedPrices (processedCryptos (processChartData getTime cryptoData) ! k) ! i = Some (Fin p)"
    if "i < length ?L" and "?L ! i = timestamps ?c ! n" for i
    using that known assms(1) by (simp add: interpolatedPrices_nth interpolatedPrice_exact)
  with ex show ?thesis
    by (simp add: labels_processChartData)
qed

theorem exact_value_preservation_witness:
  "0 < length [scenario_btc, scenario_eth]
   \<and> 1 < length (timestamps ([scenario_btc, scenario_eth] ! 0))
   \<and> array_get (prices ([scenario_btc, scenario_eth] ! 0)) 1 = Some 110
   \<and> labels (processChartData Date_getTime [scenario_btc, scenario_eth]) ! 2
       = timestamps ([scenario_btc, scenario_eth] ! 0) ! 1
   \<and> interpolatedPrices
         (processedCryptos (processChartData Date_getTime [scenario_btc, scenario_eth]) ! 0) ! 2
       = Some (Fin 110)"
proof -
  let ?cd = "[scenario_btc, scenario_eth]"
  have h1: "0 < length ?cd" by simp
  have h2: "1 < length (timestamps (?cd ! 0))" by (simp add: scenario_btc_def)
  have h3: "\<forall>j. 1 < j \<and> j < length (timestamps (?cd ! 0))
              \<longrightarrow> timestamps (?cd ! 0) ! j \<noteq> timestamps (?cd ! 0) ! 1"
    by (simp add: scenario_btc_def)
  have h4: "array_get (prices (?cd ! 0)) 1 = Some 110"
    by (simp add: scenario_btc_def array_get_def)
  have L: "labels (processChartData Date_getTime ?cd)
             = [''2024-05-01T10:00:00Z'', ''2024-05-01T11:00:00Z'', ''2024-05-01T12:00:00Z'']"
    by code_simp
  have ts: "timestamps (?cd ! 0) ! 1 = ''2024-05-01T12:00:00Z''"
    by (simp add: scenario_btc_def)
  have at: "labels (processChartData Date_getTime ?cd) ! 2 = timestamps (?cd ! 0) ! 1"
    unfolding L ts by simp
  have "2 < length (labels (processChartData Date_getTime ?cd))"
    by (simp add: L)
  with exact_value_preservation [OF h1 h2 h3 h4, of Date_getTime] at
  have "interpolatedPrices (processedCryptos (processChartData Date_getTime ?cd) ! 0) ! 2 = Some (Fin 110)"
    by blast
  with h1 h2 h4 at show ?thesis by blast
qed


section \<open>A series with no points\<close>

lemma interpolatedPrice_no_points: "interpolatedPrice getTime Map.empty L = (\<lambda>i. None)"
  by (rule ext) (simp add: interpolatedPrice_neither find_before_none find_after_none)

lemma labels_of_skip_empty:
  "timestamps e = [] \<Longrightarrow> labels_of (xs @ e # ys) = labels_of (xs @ ys)"
  by (simp add: labels_of_def allTimestamps_def)

text \<open>
  Claim C6. When one series of the batch has no points, the aligner still returns a
  result (there is no failing branch in it), the aligned values of that series are all
  \<^verbatim>\<open>null\<close>, and the timeline and the aligned values of the other series are those of the
  batch without the empty series.
\<close>

theorem empty_series_alignment:
  assumes "timestamps e = []"
  shows "labels (processChartData getTime (xs @ e # ys)) = labels (processChartData getTime (xs @ ys))
       \<and> processedCryptos (processChartData getTime (xs @ e # ys)) =
           take (length xs) (processedCryptos (processChartData getTime (xs @ ys)))
           @ \<lparr> pc_symbol = symbol e,
               interpolatedPrices =
                 replicate (length (labels (processChartData getTime (xs @ ys)))) None \<rparr>
           # drop (length xs) (processedCryptos (processChartData getTime (xs @ ys)))"
proof -
  have L: "labels_of (xs @ e # ys) = labels_of (xs @ ys)"
    using assms by (rule labels_of_skip_empty)
  have E: "map (interpolatedPrice getTime (priceMap e) (labels_of (xs @ ys)))
             [0..<length (labels_of (xs @ ys))]
           = replicate (length (labels_of (xs @ ys))) None"
    using assms by (simp add: priceMap_no_points interpolatedPrice_no_points map_replicate_const)
  show ?thesis
    by (simp add: processChartData_def Let_def L E)
qed

theorem empty_series_alignment_witness:
  "timestamps \<lparr> symbol = ''xrp'', timestamps = [], prices = [] \<rparr> = []
   \<and> labels (processChartData Date_getTime
        [scenario_btc, \<lparr> symbol = ''xrp'', timestamps = [], prices = [] \<rparr>, scenario_eth])
     = labels (processChartData Date_getTime [scenario_btc, scenario_eth])
   \<and> processedCryptos (processChartData Date_getTime
        [scenario_btc, \<lparr> symbol = ''xrp'', timestamps = [], prices = [] \<rparr>, scenario_eth])
     = [\<lparr> pc_symbol = ''btc'', interpolatedPrices = [Some (Fin 100), Some (Fin 105), Some (Fin 110)] \<rparr>,
        \<lparr> pc_symbol = ''xrp'', interpolatedPrices = [None, None, None] \<rparr>,
        \<lparr> pc_symbol = ''eth'', interpolatedPrices = [Some (Fin 50), Some (Fin 50), Some (Fin 50)] \<rparr>]"
proof -
  have h: "timestamps \<lparr> symbol = ''xrp'', timestamps = [], prices = [] \<rparr> = []" by simp
  have r: "processedCryptos (processChartData Date_getTime [scenario_btc, scenario_eth])
     = [\<lparr> pc_symbol = ''btc'', interpolatedPrices = [Some (Fin 100), Some (Fin 105), Some (Fin 110)] \<rparr>,
        \<lparr> pc_symbol = ''eth'', interpolatedPrices = [Some (Fin 50), Some (Fin 50), Some (Fin 50)] \<rparr>]"
    by code_simp
  have n: "length (labels (processChartData Date_getTime [scenario_btc, scenario_eth])) = 3"
    by code_simp
  from empty_series_alignment [OF h, of Date_getTime "[scenario_btc]" "[scenario_eth]"] r n
  show ?thesis by (simp add: numeral_3_eq_3)
qed


section \<open>Flat extrapolation at the edges\<close>

text \<open>
  Claim C4. A series has a known value at a timeline index when \<^verbatim>\<open>priceMap\<close> has an entry for
  the timestamp there. At a timeline index \<open>i\<close> strictly before the first index \<open>f\<close> with a
  known value, the aligned value is the value known at \<open>f\<close>. At a timeline index \<open>i'\<close>
  strictly after the last index \<open>l\<close> with a known value, the aligned value is the value
  known at \<open>l\<close>, the timestamp at \<open>l\<close> being a timestamp and not the empty string (which
  the source's truthiness test would treat as no timestamp). In the scenario, the series
  with the single point \<open>(t2, 50)\<close> aligns to \<open>[50, 50, 50]\<close> on the timeline
  \<open>[t1, t2, t3]\<close>.
\<close>

theorem edge_extrapolation:
  "(k < length cryptoData \<and> i < f \<and> f < length (labels (processChartData getTime cryptoData))
      \<and> priceMap (cryptoData ! k) (labels (processChartData getTime cryptoData) ! f) = Some p
      \<and> (\<forall>j<f. priceMap (cryptoData ! k) (labels (processChartData getTime cryptoData) ! j) = None)
    \<longrightarrow> interpolatedPrices (processedCryptos (processChartData getTime cryptoData) ! k) ! i
          = Some (Fin p))
   \<and> (k < length cryptoData \<and> l < i' \<and> i' < length (labels (processChartData getTime cryptoData))
      \<and> priceMap (cryptoData ! k) (labels (processChartData getTime cryptoData) ! l) = Some q
      \<and> labels (processChartData getTime cryptoData) ! l \<noteq> []
      \<and> (\<forall>j. l < j \<and> j < length (labels (processChartData getTime cryptoData))
             \<longrightarrow> priceMap (cryptoData ! k) (labels (processChartData getTime cryptoData) ! j) = None)
    \<longrightarrow> interpolatedPrices (processedCryptos (processChartData getTime cryptoData) ! k) ! i'
          = Some (Fin q))
   \<and> labels (processChartData getTime [scenario_btc, scenario_eth])
        = [''2024-05-01T10:00:00Z'', ''2024-05-01T11:00:00Z'', ''2024-05-01T12:00:00Z'']
   \<and> interpolatedPrices (processedCryptos (processChartData getTime [scenario_btc, scenario_eth]) ! 1)
        = [Some (Fin 50), Some (Fin 50), Some (Fin 50)]"
proof (intro conjI impI)
  let ?L = "labels_of cryptoData" and ?m = "priceMap (cryptoData ! k)"
  assume a: "k < length cryptoData \<and> i < f \<and> f < length (labels (processChartData getTime cryptoData))
      \<and> priceMap (cryptoData ! k) (labels (processChartData getTime cryptoData) ! f) = Some p
      \<and> (\<forall>j<f. priceMap (cryptoData ! k) (labels (processChartData getTime cryptoData) ! j) = None)"
  then have k: "k < length cryptoData" and "i < f" and f: "f < length ?L"
    and known: "?m (?L ! f) = Some p" and none: "\<forall>j<f. ?m (?L ! j) = None"
    by (simp_all add: labels_processChartData)
  have here: "?m (?L ! i) = None" using none \<open>i < f\<close> by simp
  have fb: "find_before ?m ?L i = None"
    using none \<open>i < f\<close> by (intro find_before_none) simp
  have fa: "find_after ?m ?L (Suc i) = Some (?L ! f, p)"
    using \<open>i < f\<close> f known none by (intro find_after_nearest) simp_all
  have ne: "?L ! f \<noteq> []"
  proof
    assume e: "?L ! f = []"
    have "sorted ?L" by (rule sorted_labels_of)
    then have "?L ! i \<le> ?L ! f"
      using \<open>i < f\<close> f by (simp add: sorted_iff_nth_mono)
    with e have "?L ! i = ?L ! f" by simp
    with here known show False by simp
  qed
  from k \<open>i < f\<close> f here fb fa ne
  show "interpolatedPrices (processedCryptos (processChartData getTime cryptoData) ! k) ! i = Some (Fin p)"
    by (simp add: interpolatedPrices_nth interpolatedPrice_only_after)
next
  let ?L = "labels_of cryptoData" and ?m = "priceMap (cryptoData ! k)"
  assume a: "k < length cryptoData \<and> l < i' \<and> i' < length (labels (processChartData getTime cryptoData))
      \<and> priceMap (cryptoData ! k) (labels (processChartData getTime cryptoData) ! l) = Some q
      \<and> labels (processChartData getTime cryptoData) ! l \<noteq> []
      \<and> (\<forall>j. l < j \<and> j < length (labels (processChartData getTime cryptoData))
             \<longrightarrow> priceMap (cryptoData ! k) (labels (processChartData getTime cryptoData) ! j) = None)"
  then have k: "k < length cryptoData" and "l < i'" and i': "i' < length ?L"
    and known: "?m (?L ! l) = Some q" and ne: "?L ! l \<noteq> []"
    and none: "\<forall>j. l < j \<and> j < length ?L \<longrightarrow> ?m (?L ! j) = None"
    by (simp_all add: labels_processChartData)
  have here: "?m (?L ! i') = None" using none \<open>l < i'\<close> i' by simp
  have fb: "find_before ?m ?L i' = Some (?L ! l, q)"
    using \<open>l < i'\<close> known none i' by (intro find_before_nearest) simp_all
  have fa: "find_after ?m ?L (Suc i') = None"
    using none \<open>l < i'\<close> by (intro find_after_none) simp
  from k i' here fb fa ne
  show "interpolatedPrices (processedCryptos (processChartData getTime cryptoData) ! k) ! i' = Some (Fin q)"
    by (simp add: interpolatedPrices_nth interpolatedPrice_only_before)
next
  show "labels (processChartData getTime [scenario_btc, scenario_eth])
        = [''2024-05-01T10:00:00Z'', ''2024-05-01T11:00:00Z'', ''2024-05-01T12:00:00Z'']"
    by code_simp
next
  show "interpolatedPrices (processedCryptos (processChartData getTime [scenario_btc, scenario_eth]) ! 1)
        = [Some (Fin 50), Some (Fin 50), Some (Fin 50)]"
    by code_simp
qed

theorem edge_extrapolation_witness:
  "priceMap ([scenario_btc, scenario_eth] ! 1)
      (labels (processChartData Date_getTime [scenario_btc, scenario_eth]) ! 1) = Some 50
   \<and> priceMap ([scenario_btc, scenario_eth] ! 1)
      (labels (processChartData Date_getTime [scenario_btc, scenario_eth]) ! 0) = None
   \<and> priceMap ([scenario_btc, scenario_eth] ! 1)
      (labels (processChartData Date_getTime [scenario_btc, scenario_eth]) ! 2) = None
   \<and> labels (processChartData Date_getTime [scenario_btc, scenario_eth]) ! 1 \<noteq> []
   \<and> interpolatedPrices
        (processedCryptos (processChartData Date_getTime [scenario_btc, scenario_eth]) ! 1) ! 0
       = Some (Fin 50)
   \<and> interpolatedPrices
        (processedCryptos (processChartData Date_getTime [scenario_btc, scenario_eth]) ! 1) ! 2
       = Some (Fin 50)"
proof -
  let ?cd = "[scenario_btc, scenario_eth]"
  let ?L = "labels (processChartData Date_getTime ?cd)"
  have L: "?L = [''2024-05-01T10:00:00Z'', ''2024-05-01T11:00:00Z'', ''2024-05-01T12:00:00Z'']"
    by code_simp
  have m0: "priceMap (?cd ! 1) (?L ! 0) = None" by code_simp
  have m1: "priceMap (?cd ! 1) (?L ! 1) = Some 50" by code_simp
  have m2: "priceMap (?cd ! 1) (?L ! 2) = None" by code_simp
  have ne: "?L ! 1 \<noteq> []" by (simp add: L)
  have len: "length ?L = 3" by (simp add: L)
  have b: "\<forall>j<1. priceMap (?cd ! 1) (?L ! j) = None"
    using m0 by simp
  have a: "\<forall>j. 1 < j \<and> j < length ?L \<longrightarrow> priceMap (?cd ! 1) (?L ! j) = None"
  proof (intro allI impI)
    fix j assume "1 < j \<and> j < length ?L"
    with len have "j = 2" by simp
    with m2 show "priceMap (?cd ! 1) (?L ! j) = None" by simp
  qed
  have first: "interpolatedPrices (processedCryptos (processChartData Date_getTime ?cd) ! 1) ! 0
                 = Some (Fin 50)"
    using edge_extrapolation [of 1 ?cd 0 1 Date_getTime 50] m1 b len by simp
  have last: "interpolatedPrices (processedCryptos (processChartData Date_getTime ?cd) ! 1) ! 2
                 = Some (Fin 50)"
    using edge_extrapolation [of 1 ?cd _ _ Date_getTime _ 1 2 50] m1 ne a len by simp
  from m0 m1 m2 ne first last show ?thesis by blast
qed


section \<open>The order of the timeline\<close>

lemma timeline_sorted_union:
  "labels (processChartData getTime cryptoData)
     = sorted_list_of_set (\<Union>c\<in>set cryptoData. set (timestamps c))
   \<and> sorted_wrt (<) (labels (processChartData getTime cryptoData))"
proof -
  have "labels_of cryptoData = sorted_list_of_set (\<Union>c\<in>set cryptoData. set (timestamps c))"
    by (metis set_labels_of distinct_labels_of sorted_labels_of
        sorted_list_of_set.idem_if_sorted_distinct)
  moreover have "sorted_wrt (<) (labels_of cryptoData)"
    using sorted_labels_of distinct_labels_of by (simp add: strict_sorted_iff)
  ultimately show ?thesis by (simp add: labels_processChartData)
qed

text \<open>
  Claim C1. The timeline is the deduplicated union of the timestamps and is strictly
  increasing as a list of strings, but the source sorts it with \<^verbatim>\<open>sort()\<close> and no comparator,
  under the comment that it sorts chronologically. On timestamps written with and
  without milliseconds the order of the strings is not the order of the dates: here
  12:00:00.500 is put before 12:00:00.
\<close>

theorem timeline_not_chronological:
  "labels (processChartData Date_getTime [mixed_btc, mixed_eth])
     = [''2024-05-01T12:00:00.500Z'', ''2024-05-01T12:00:00Z'', ''2024-05-01T12:00:01Z'']
   \<and> Date_getTime ''2024-05-01T12:00:00.500Z'' = Fin 1714564800500
   \<and> Date_getTime ''2024-05-01T12:00:00Z'' = Fin 1714564800000
   \<and> Date_getTime ''2024-05-01T12:00:01Z'' = Fin 1714564801000
   \<and> js_lt (Date_getTime (labels (processChartData Date_getTime [mixed_btc, mixed_eth]) ! 1))
           (Date_getTime (labels (processChartData Date_getTime [mixed_btc, mixed_eth]) ! 0))"
  by code_simp


section \<open>Interpolation\<close>

text \<open>
  Between two known points whose dates are valid and differ, the pushed value is the
  linear interpolation over the time values; when the date of the index lies between
  the two, the value lies between the two prices.
\<close>

lemma convex_between:
  fixes p0 p1 r :: real
  assumes "0 \<le> r" "r \<le> 1"
  shows "min p0 p1 \<le> p0 + (p1 - p0) * r \<and> p0 + (p1 - p0) * r \<le> max p0 p1"
proof (cases "p0 \<le> p1")
  case True
  then have lo: "0 \<le> (p1 - p0) * r" using assms by simp
  have hi: "(p1 - p0) * r \<le> p1 - p0"
    using mult_left_mono [of r 1 "p1 - p0"] True assms by simp
  from lo hi True show ?thesis by (simp add: min_def max_def)
next
  case False
  then have d: "0 \<le> p0 - p1" by simp
  have lo: "0 \<le> (p0 - p1) * r" using d assms by simp
  have hi: "(p0 - p1) * r \<le> p0 - p1"
    using mult_left_mono [of r 1 "p0 - p1"] d assms by simp
  have eq: "(p1 - p0) * r = - ((p0 - p1) * r)" by (simp add: algebra_simps)
  have "p1 \<le> p0 + (p1 - p0) * r" and "p0 + (p1 - p0) * r \<le> p0"
    unfolding eq using lo hi by linarith+
  with False show ?thesis by (simp add: min_def max_def)
qed

lemma interpolation_formula:
  assumes "m (L ! i) = None"
    and "find_before m L i = Some (t0, p0)" and "t0 \<noteq> []"
    and "find_after m L (Suc i) = Some (t1, p1)" and "t1 \<noteq> []"
    and "getTime t0 = Fin a" and "getTime (L ! i) = Fin t" and "getTime t1 = Fin b"
    and "a \<noteq> b"
  shows "interpolatedPrice getTime m L i = Some (Fin (p0 + (p1 - p0) * (t - a) / (b - a)))"
  using assms by (simp add: interpolatedPrice_both js_sub_def)

lemma interpolation_between:
  assumes "m (L ! i) = None"
    and "find_before m L i = Some (t0, p0)" and "t0 \<noteq> []"
    and "find_after m L (Suc i) = Some (t1, p1)" and "t1 \<noteq> []"
    and "getTime t0 = Fin a" and "getTime (L ! i) = Fin t" and "getTime t1 = Fin b"
    and "a \<le> t" and "t \<le> b" and "a < b"
  shows "\<exists>v. interpolatedPrice getTime m L i = Some (Fin v) \<and> min p0 p1 \<le> v \<and> v \<le> max p0 p1"
proof -
  let ?r = "(t - a) / (b - a)"
  have "0 \<le> ?r" and "?r \<le> 1" using assms(9-11) by simp_all
  then have "min p0 p1 \<le> p0 + (p1 - p0) * ?r \<and> p0 + (p1 - p0) * ?r \<le> max p0 p1"
    by (rule convex_between)
  moreover have "interpolatedPrice getTime m L i = Some (Fin (p0 + (p1 - p0) * ?r))"
    using interpolation_formula [OF assms(1-8)] assms(11) by simp
  ultimately show ?thesis by blast
qed

text \<open>
  On the output of \<^verbatim>\<open>processChartData\<close>: at a timeline index \<open>i\<close> between the nearest known
  indices \<open>l\<close> and \<open>f\<close> of a series, when the three dates are valid and in the order of the
  indices, the aligned value is the linear interpolation and lies between the two prices.
\<close>

lemma interpolation_on_timeline:
  assumes k: "k < length cryptoData"
    and order: "l < i" "i < f" "f < length (labels (processChartData getTime cryptoData))"
    and before: "priceMap (cryptoData ! k) (labels (processChartData getTime cryptoData) ! l) = Some p0"
    and after: "priceMap (cryptoData ! k) (labels (processChartData getTime cryptoData) ! f) = Some p1"
    and between: "\<forall>j. l < j \<and> j < f
        \<longrightarrow> priceMap (cryptoData ! k) (labels (processChartData getTime cryptoData) ! j) = None"
    and nonempty: "labels (processChartData getTime cryptoData) ! l \<noteq> []"
    and times: "getTime (labels (processChartData getTime cryptoData) ! l) = Fin t0"
      "getTime (labels (processChartData getTime cryptoData) ! i) = Fin t"
      "getTime (labels (processChartData getTime cryptoData) ! f) = Fin t1"
    and chrono: "t0 < t" "t < t1"
  shows "interpolatedPrices (processedCryptos (processChartData getTime cryptoData) ! k) ! i
           = Some (Fin (p0 + (p1 - p0) * (t - t0) / (t1 - t0)))
       \<and> min p0 p1 \<le> p0 + (p1 - p0) * (t - t0) / (t1 - t0)
       \<and> p0 + (p1 - p0) * (t - t0) / (t1 - t0) \<le> max p0 p1"
proof -
  let ?L = "labels_of cryptoData" and ?m = "priceMap (cryptoData ! k)"
  note [simp] = labels_processChartData
  have here: "?m (?L ! i) = None" using between order by simp
  have fb: "find_before ?m ?L i = Some (?L ! l, p0)"
    using order before between by (intro find_before_nearest) simp_all
  have fa: "find_after ?m ?L (Suc i) = Some (?L ! f, p1)"
    using order after between by (intro find_after_nearest) simp_all
  have ne: "?L ! f \<noteq> []"
  proof
    assume e: "?L ! f = []"
    have "sorted ?L" by (rule sorted_labels_of)
    then have "?L ! i \<le> ?L ! f"
      using order by (simp add: sorted_iff_nth_mono)
    with e have "?L ! i = ?L ! f" by simp
    with here after show False by simp
  qed
  have "t0 \<noteq> t1" using chrono by simp
  with here fb fa ne nonempty times
  have "interpolatedPrice getTime ?m ?L i = Some (Fin (p0 + (p1 - p0) * (t - t0) / (t1 - t0)))"
    by (intro interpolation_formula) simp_all
  moreover have "i < length ?L" using order by simp
  moreover have "0 \<le> (t - t0) / (t1 - t0)" and "(t - t0) / (t1 - t0) \<le> 1"
    using chrono by simp_all
  then have "min p0 p1 \<le> p0 + (p1 - p0) * ((t - t0) / (t1 - t0))
      \<and> p0 + (p1 - p0) * ((t - t0) / (t1 - t0)) \<le> max p0 p1"
    by (rule convex_between)
  ultimately show ?thesis using k by (simp add: interpolatedPrices_nth)
qed

text \<open>
  Claim C2. The value pushed between two known points follows the interpolation formula,
  but the nearest known points are the nearest on the timeline, which is in the order of
  the strings. On the mixed timestamps the index of 12:00:00 lies between the indices of
  12:00:00.500 (price 100) and 12:00:01 (price 110): the ratio is \<open>- 1\<close> and the value is
  90, below both prices.
\<close>

theorem interpolation_outside_bounds:
  "interpolatedPrices (processedCryptos (processChartData Date_getTime [mixed_btc, mixed_eth]) ! 0)
     = [Some (Fin 100), Some (Fin 90), Some (Fin 110)]
   \<and> \<not> in_range (min 100 110) (max 100 110)
         (interpolatedPrices
            (processedCryptos (processChartData Date_getTime [mixed_btc, mixed_eth]) ! 0) ! 1)"
  by code_simp


section \<open>Properties of the normalizers\<close>

subsection \<open>Minimum and maximum of finite values\<close>

lemma finite_num_iff: "finite_num v \<longleftrightarrow> (\<exists>r. v = Fin r)"
  by (cases v) simp_all

lemma Math_max_finite:
  "list_all finite_num vs \<Longrightarrow> vs \<noteq> []
     \<Longrightarrow> \<exists>r. Math_max vs = Fin r \<and> Fin r \<in> set vs \<and> (\<forall>r'. Fin r' \<in> set vs \<longrightarrow> r' \<le> r)"
proof (induction vs)
  case Nil
  then show ?case by simp
next
  case (Cons v vs)
  from Cons.prems obtain a where v: "v = Fin a" by (auto simp: finite_num_iff)
  show ?case
  proof (cases "vs = []")
    case True
    with v show ?thesis by simp
  next
    case False
    with Cons obtain r where r: "Math_max vs = Fin r" "Fin r \<in> set vs"
      "\<forall>r'. Fin r' \<in> set vs \<longrightarrow> r' \<le> r" by auto
    show ?thesis
    proof (cases "a < r")
      case True
      with v r show ?thesis by auto
    next
      case False
      with v r show ?thesis by fastforce
    qed
  qed
qed

lemma Math_min_finite:
  "list_all finite_num vs \<Longrightarrow> vs \<noteq> []
     \<Longrightarrow> \<exists>r. Math_min vs = Fin r \<and> Fin r \<in> set vs \<and> (\<forall>r'. Fin r' \<in> set vs \<longrightarrow> r \<le> r')"
proof (induction vs)
  case Nil
  then show ?case by simp
next
  case (Cons v vs)
  from Cons.prems obtain a where v: "v = Fin a" by (auto simp: finite_num_iff)
  show ?case
  proof (cases "vs = []")
    case True
    with v show ?thesis by simp
  next
    case False
    with Cons obtain r where r: "Math_min vs = Fin r" "Fin r \<in> set vs"
      "\<forall>r'. Fin r' \<in> set vs \<longrightarrow> r \<le> r'" by auto
    show ?thesis
    proof (cases "r < a")
      case True
      with v r show ?thesis by auto
    next
      case False
      with v r show ?thesis by fastforce
    qed
  qed
qed

lemma set_validPrices: "set (validPrices xs) = {v. Some v \<in> set xs}"
  by (induction xs) (auto split: option.splits)

lemma validPrices_replicate_None: "validPrices (replicate n None) = []"
  by (induction n) simp_all

lemma length_zeroBased: "length (zeroBased_normalizedPrices xs) = length xs"
  by (simp add: zeroBased_normalizedPrices_def Let_def)

lemma length_minMax: "length (minMax_normalizedPrices xs) = length xs"
  by (simp add: minMax_normalizedPrices_def Let_def)

lemma zeroBased_nth:
  "i < length xs \<Longrightarrow> zeroBased_normalizedPrices xs ! i =
     (case xs ! i of None \<Rightarrow> None
      | Some v \<Rightarrow> Some (js_mul (js_div (js_sub v (Fin 0))
                                  (js_sub (Math_max (validPrices xs)) (Fin 0))) (Fin 100)))"
  by (simp add: zeroBased_normalizedPrices_def Let_def)

lemma minMax_nth:
  "i < length xs \<Longrightarrow> minMax_normalizedPrices xs ! i =
     (case xs ! i of None \<Rightarrow> None
      | Some v \<Rightarrow> Some (js_mul (js_div (js_sub v (Math_min (validPrices xs)))
                                  (js_sub (Math_max (validPrices xs)) (Math_min (validPrices xs))))
                          (Fin 100)))"
  by (simp add: minMax_normalizedPrices_def Let_def)

subsection \<open>Nulls\<close>

text \<open>
  Claim C9. Under both policies the normalized series has the length of the aligned
  series, every \<^verbatim>\<open>null\<close> entry stays \<^verbatim>\<open>null\<close> (it is not turned into a number), and an
  all-\<^verbatim>\<open>null\<close> series normalizes to an all-\<^verbatim>\<open>null\<close> series.
\<close>

theorem null_propagation:
  "length (zeroBased_normalizedPrices xs) = length xs
   \<and> length (minMax_normalizedPrices xs) = length xs
   \<and> (i < length xs \<and> xs ! i = None
        \<longrightarrow> zeroBased_normalizedPrices xs ! i = None \<and> minMax_normalizedPrices xs ! i = None)
   \<and> zeroBased_normalizedPrices (replicate n None) = replicate n None
   \<and> minMax_normalizedPrices (replicate n None) = replicate n None"
proof (intro conjI impI)
  show "length (zeroBased_normalizedPrices xs) = length xs" by (rule length_zeroBased)
  show "length (minMax_normalizedPrices xs) = length xs" by (rule length_minMax)
  show "zeroBased_normalizedPrices (replicate n None) = replicate n None"
    by (simp add: zeroBased_normalizedPrices_def Let_def)
  show "minMax_normalizedPrices (replicate n None) = replicate n None"
    by (simp add: minMax_normalizedPrices_def Let_def)
next
  assume "i < length xs \<and> xs ! i = None"
  then show "zeroBased_normalizedPrices xs ! i = None" by (simp add: zeroBased_nth)
next
  assume "i < length xs \<and> xs ! i = None"
  then show "minMax_normalizedPrices xs ! i = None" by (simp add: minMax_nth)
qed

theorem null_propagation_witness:
  "1 < length [Some (Fin 100), None, Some (Fin 110)]
   \<and> [Some (Fin 100), None, Some (Fin 110)] ! 1 = None
   \<and> zeroBased_normalizedPrices [Some (Fin 100), None, Some (Fin 110)] ! 1 = None
   \<and> minMax_normalizedPrices [Some (Fin 100), None, Some (Fin 110)] ! 1 = None"
  using null_propagation [of "[Some (Fin 100), None, Some (Fin 110)]" 1] by simp

subsection \<open>Constant series\<close>

lemma Math_constant:
  "list_all (\<lambda>v. v = Fin c) vs \<Longrightarrow> vs \<noteq> [] \<Longrightarrow> Math_max vs = Fin c \<and> Math_min vs = Fin c"
proof (induction vs)
  case Nil
  then show ?case by simp
next
  case (Cons v vs)
  then show ?case by (cases "vs = []") auto
qed

text \<open>
  What the two maps compute on a series whose non-null values all equal one finite
  constant \<open>c\<close>: the quotient \<open>(price - minPrice) / (maxPrice - minPrice)\<close> is evaluated with
  no test of the denominator.
\<close>

lemma constant_series_values:
  "length (minMax_normalizedPrices xs) = length xs
   \<and> length (zeroBased_normalizedPrices xs) = length xs
   \<and> (list_all (\<lambda>v. v = Fin c) (validPrices xs) \<and> i < length xs \<and> xs ! i \<noteq> None
        \<longrightarrow> minMax_normalizedPrices xs ! i = Some NaN
          \<and> zeroBased_normalizedPrices xs ! i = Some (if c = 0 then NaN else Fin 100))"
proof (intro conjI impI)
  show "length (minMax_normalizedPrices xs) = length xs" by (rule length_minMax)
  show "length (zeroBased_normalizedPrices xs) = length xs" by (rule length_zeroBased)
next
  assume a: "list_all (\<lambda>v. v = Fin c) (validPrices xs) \<and> i < length xs \<and> xs ! i \<noteq> None"
  then obtain v where v: "xs ! i = Some v" by auto
  with a have "v \<in> set (validPrices xs)"
    by (auto simp: set_validPrices dest: nth_mem)
  with a have vc: "v = Fin c" and ne: "validPrices xs \<noteq> []"
    by (auto simp: list_all_iff)
  from a ne have mm: "Math_max (validPrices xs) = Fin c" "Math_min (validPrices xs) = Fin c"
    using Math_constant by blast+
  from a v vc mm show "minMax_normalizedPrices xs ! i = Some NaN"
    by (simp add: minMax_nth js_sub_def)
  from a v vc mm show "zeroBased_normalizedPrices xs ! i = Some (if c = 0 then NaN else Fin 100)"
    by (simp add: zeroBased_nth js_sub_def)
qed

text \<open>
  Claim C3. A constant series is to be normalized, without raising, to the fallback of the
  policy: \<open>50\<close> under min-max, \<open>0\<close> under zero-based when the constant is \<open>0\<close>. The source
  announces \<^verbatim>\<open>Normalize the data to a range between 0 and 100\<close> over both maps, but neither
  tests for a zero denominator. Min-max sends \<open>[5, 5]\<close> to \<open>[NaN, NaN]\<close> and zero-based
  sends \<open>[0, 0]\<close> to \<open>[NaN, NaN]\<close>, neither of which is in \<open>[0, 100]\<close>; and the
  single-point series of the scenario, aligned to \<open>[50, 50, 50]\<close>, comes out of min-max
  as \<open>[NaN, NaN, NaN]\<close>.
\<close>

theorem constant_series_not_a_number:
  "minMax_normalizedPrices [Some (Fin 5), Some (Fin 5)] = [Some NaN, Some NaN]
   \<and> \<not> list_all (in_range 0 100) (minMax_normalizedPrices [Some (Fin 5), Some (Fin 5)])
   \<and> zeroBased_normalizedPrices [Some (Fin 0), Some (Fin 0)] = [Some NaN, Some NaN]
   \<and> \<not> list_all (in_range 0 100) (zeroBased_normalizedPrices [Some (Fin 0), Some (Fin 0)])
   \<and> interpolatedPrices
         (processedCryptos (processChartData Date_getTime [scenario_btc, scenario_eth]) ! 1)
       = [Some (Fin 50), Some (Fin 50), Some (Fin 50)]
   \<and> minMax_normalizedPrices
         (interpolatedPrices
            (processedCryptos (processChartData Date_getTime [scenario_btc, scenario_eth]) ! 1))
       = [Some NaN, Some NaN, Some NaN]"
  by code_simp

subsection \<open>Ranges\<close>

lemma percent_bounds:
  fixes q :: real
  assumes "0 \<le> q" and "q \<le> 1"
  shows "0 \<le> q * 100 \<and> q * 100 \<le> 100"
  using assms by simp

lemma nonneg_num_iff: "nonneg_num v \<longleftrightarrow> (\<exists>r. v = Fin r \<and> 0 \<le> r)"
  by (cases v) simp_all

lemma in_range_zeroBased:
  assumes nn: "list_all nonneg_num (validPrices xs)"
    and nz: "Math_max (validPrices xs) \<noteq> Fin 0"
    and i: "i < length xs"
  shows "in_range 0 100 (zeroBased_normalizedPrices xs ! i)"
proof (cases "xs ! i")
  case None
  with i show ?thesis by (simp add: zeroBased_nth)
next
  case (Some v)
  with i have mem: "v \<in> set (validPrices xs)"
    by (auto simp: set_validPrices dest: nth_mem)
  have fin: "list_all finite_num (validPrices xs)"
    using nn by (auto simp: list_all_iff nonneg_num_iff)
  from mem have "validPrices xs \<noteq> []" by auto
  with fin obtain M where M: "Math_max (validPrices xs) = Fin M"
    "\<forall>r'. Fin r' \<in> set (validPrices xs) \<longrightarrow> r' \<le> M"
    using Math_max_finite by blast
  from nn mem obtain r where r: "v = Fin r" "0 \<le> r"
    by (auto simp: list_all_iff nonneg_num_iff)
  with mem M have "r \<le> M" by simp
  moreover from nz M have "M \<noteq> 0" by simp
  ultimately have "0 < M" using r by simp
  then have "0 \<le> r / M" and "r / M \<le> 1"
    using r \<open>r \<le> M\<close> by simp_all
  then have "0 \<le> r / M * 100 \<and> r / M * 100 \<le> 100"
    by (rule percent_bounds)
  with i Some r M \<open>M \<noteq> 0\<close> show ?thesis
    by (simp add: zeroBased_nth js_sub_def)
qed

lemma in_range_minMax:
  assumes fin: "list_all finite_num (validPrices xs)"
    and ne: "Math_min (validPrices xs) \<noteq> Math_max (validPrices xs)"
    and i: "i < length xs"
  shows "in_range 0 100 (minMax_normalizedPrices xs ! i)"
proof (cases "xs ! i")
  case None
  with i show ?thesis by (simp add: minMax_nth)
next
  case (Some v)
  with i have mem: "v \<in> set (validPrices xs)"
    by (auto simp: set_validPrices dest: nth_mem)
  then have nonempty: "validPrices xs \<noteq> []" by auto
  from fin nonempty obtain M where M: "Math_max (validPrices xs) = Fin M"
    "\<forall>r'. Fin r' \<in> set (validPrices xs) \<longrightarrow> r' \<le> M"
    using Math_max_finite by blast
  from fin nonempty obtain m where m: "Math_min (validPrices xs) = Fin m"
    "\<forall>r'. Fin r' \<in> set (validPrices xs) \<longrightarrow> m \<le> r'"
    using Math_min_finite by blast
  from fin mem obtain r where r: "v = Fin r"
    by (auto simp: list_all_iff finite_num_iff)
  with mem M m have bounds: "m \<le> r" "r \<le> M" by simp_all
  with ne M m have lt: "m < M" by simp
  then have "0 \<le> (r - m) / (M - m)" and "(r - m) / (M - m) \<le> 1"
    using bounds by simp_all
  then have "0 \<le> (r - m) / (M - m) * 100 \<and> (r - m) / (M - m) * 100 \<le> 100"
    by (rule percent_bounds)
  with i Some r M m lt show ?thesis
    by (simp add: minMax_nth js_sub_def)
qed

text \<open>
  Claim C7, as the code has it. Under zero-based normalization, a series of non-negative
  values whose maximum is not \<open>0\<close> has all its non-null outputs in \<open>[0, 100]\<close>; the range
  \<open>[90, 100]\<close> is the window of the chart's axis, not a bound on the values. Under
  min-max normalization, a series of finite values whose minimum and maximum differ has
  all its non-null outputs in \<open>[0, 100]\<close>.
\<close>

theorem normalized_range:
  "(list_all nonneg_num (validPrices xs) \<and> Math_max (validPrices xs) \<noteq> Fin 0
      \<longrightarrow> list_all (in_range 0 100) (zeroBased_normalizedPrices xs))
   \<and> (list_all finite_num (validPrices ys) \<and> Math_min (validPrices ys) \<noteq> Math_max (validPrices ys)
      \<longrightarrow> list_all (in_range 0 100) (minMax_normalizedPrices ys))"
proof (intro conjI impI)
  assume "list_all nonneg_num (validPrices xs) \<and> Math_max (validPrices xs) \<noteq> Fin 0"
  then show "list_all (in_range 0 100) (zeroBased_normalizedPrices xs)"
    by (simp add: list_all_length length_zeroBased in_range_zeroBased)
next
  assume "list_all finite_num (validPrices ys) \<and> Math_min (validPrices ys) \<noteq> Math_max (validPrices ys)"
  then show "list_all (in_range 0 100) (minMax_normalizedPrices ys)"
    by (simp add: list_all_length length_minMax in_range_minMax)
qed

theorem normalized_range_witness:
  "list_all nonneg_num (validPrices [Some (Fin 50), None, Some (Fin 100)])
   \<and> Math_max (validPrices [Some (Fin 50), None, Some (Fin 100)]) \<noteq> Fin 0
   \<and> list_all (in_range 0 100) (zeroBased_normalizedPrices [Some (Fin 50), None, Some (Fin 100)])
   \<and> list_all finite_num (validPrices [Some (Fin 100), Some (Fin 105), Some (Fin 110)])
   \<and> Math_min (validPrices [Some (Fin 100), Some (Fin 105), Some (Fin 110)])
       \<noteq> Math_max (validPrices [Some (Fin 100), Some (Fin 105), Some (Fin 110)])
   \<and> list_all (in_range 0 100)
        (minMax_normalizedPrices [Some (Fin 100), Some (Fin 105), Some (Fin 110)])"
  using normalized_range [of "[Some (Fin 50), None, Some (Fin 100)]"
      "[Some (Fin 100), Some (Fin 105), Some (Fin 110)]"]
  by simp

text \<open>
  Claim C7, as stated, fails: zero-based normalization maps \<open>[50, 100]\<close> to \<open>[50, 100]\<close>,
  and \<open>50\<close> is outside \<open>[90, 100]\<close>; min-max normalization of the constant series
  \<open>[5, 5]\<close> gives no value of \<open>[0, 100]\<close>.
\<close>

theorem normalized_range_counterexample:
  "zeroBased_normalizedPrices [Some (Fin 50), Some (Fin 100)] = [Some (Fin 50), Some (Fin 100)]
   \<and> \<not> list_all (in_range 90 100) (zeroBased_normalizedPrices [Some (Fin 50), Some (Fin 100)])
   \<and> \<not> list_all (in_range 0 100) (minMax_normalizedPrices [Some (Fin 5), Some (Fin 5)])"
  by (simp add: minMax_normalizedPrices_def zeroBased_normalizedPrices_def js_sub_def)

subsection \<open>The endpoints of min-max\<close>

text \<open>
  Claim C8. For an aligned series whose non-null values are finite, lie between \<open>m\<close> and
  \<open>M\<close>, and contain both, with \<open>m \<noteq> M\<close>: min-max normalization gives exactly \<open>0\<close> at an
  index holding \<open>m\<close> and exactly \<open>100\<close> at an index holding \<open>M\<close>. The series
  \<open>[100, 105, 110]\<close> normalizes to \<open>[0, 50, 100]\<close>.
\<close>

theorem minMax_endpoints:
  "((\<forall>v \<in> set (validPrices xs). \<exists>r. v = Fin r \<and> m \<le> r \<and> r \<le> M)
      \<and> i < length xs \<and> xs ! i = Some (Fin m)
      \<and> j < length xs \<and> xs ! j = Some (Fin M) \<and> m \<noteq> M
     \<longrightarrow> minMax_normalizedPrices xs ! i = Some (Fin 0)
       \<and> minMax_normalizedPrices xs ! j = Some (Fin 100))
   \<and> minMax_normalizedPrices [Some (Fin 100), Some (Fin 105), Some (Fin 110)]
       = [Some (Fin 0), Some (Fin 50), Some (Fin 100)]"
proof (intro conjI impI)
  assume a: "(\<forall>v \<in> set (validPrices xs). \<exists>r. v = Fin r \<and> m \<le> r \<and> r \<le> M)
      \<and> i < length xs \<and> xs ! i = Some (Fin m)
      \<and> j < length xs \<and> xs ! j = Some (Fin M) \<and> m \<noteq> M"
  then have fin: "list_all finite_num (validPrices xs)"
    by (auto simp: list_all_iff)
  from a have mem_m: "Fin m \<in> set (validPrices xs)" and mem_M: "Fin M \<in> set (validPrices xs)"
    by (auto simp: set_validPrices dest: nth_mem)
  then have nonempty: "validPrices xs \<noteq> []" by auto
  from fin nonempty obtain hi where hi: "Math_max (validPrices xs) = Fin hi"
    "Fin hi \<in> set (validPrices xs)" "\<forall>r'. Fin r' \<in> set (validPrices xs) \<longrightarrow> r' \<le> hi"
    using Math_max_finite by blast
  from fin nonempty obtain lo where lo: "Math_min (validPrices xs) = Fin lo"
    "Fin lo \<in> set (validPrices xs)" "\<forall>r'. Fin r' \<in> set (validPrices xs) \<longrightarrow> lo \<le> r'"
    using Math_min_finite by blast
  from hi mem_M a have "hi = M" by fastforce
  moreover from lo mem_m a have "lo = m" by fastforce
  ultimately have mm: "Math_max (validPrices xs) = Fin M" "Math_min (validPrices xs) = Fin m"
    using hi lo by simp_all
  from a mm show "minMax_normalizedPrices xs ! i = Some (Fin 0)"
    by (simp add: minMax_nth js_sub_def)
  from a mm show "minMax_normalizedPrices xs ! j = Some (Fin 100)"
    by (simp add: minMax_nth js_sub_def)
next
  show "minMax_normalizedPrices [Some (Fin 100), Some (Fin 105), Some (Fin 110)]
       = [Some (Fin 0), Some (Fin 50), Some (Fin 100)]"
    by (simp add: minMax_normalizedPrices_def js_sub_def)
qed

theorem minMax_endpoints_witness:
  "[Some (Fin 3), None, Some (Fin 1), Some (Fin 2)] ! 2 = Some (Fin 1)
   \<and> [Some (Fin 3), None, Some (Fin 1), Some (Fin 2)] ! 0 = Some (Fin 3)
   \<and> minMax_normalizedPrices [Some (Fin 3), None, Some (Fin 1), Some (Fin 2)] ! 2 = Some (Fin 0)
   \<and> minMax_normalizedPrices [Some (Fin 3), None, Some (Fin 1), Some (Fin 2)] ! 0 = Some (Fin 100)"
  using minMax_endpoints [of "[Some (Fin 3), None, Some (Fin 1), Some (Fin 2)]" 1 3 2 0] by simp


section \<open>Properties of the range filter\<close>

text \<open>
  Claim C10. For a time range other than \<^verbatim>\<open>24h\<close>, \<^verbatim>\<open>7d\<close> and \<^verbatim>\<open>1m\<close> the cutoff is
  \<^verbatim>\<open>undefined\<close>, no timestamp passes the comparison with it, and the filter returns the
  symbol with empty \<^verbatim>\<open>timestamps\<close> and \<^verbatim>\<open>prices\<close>, whatever was fetched. Every series of the
  cycle is then empty and so is the timeline.
\<close>

theorem unknown_range_discards_all:
  "timeRange \<noteq> ''24h'' \<and> timeRange \<noteq> ''7d'' \<and> timeRange \<noteq> ''1m''
     \<longrightarrow> fetchHistoricalData getTime currentTime data symb timeRange
           = \<lparr> symbol = symb, timestamps = [], prices = [] \<rparr>
       \<and> labels (processChartData getTime
            (map (\<lambda>(s, d). fetchHistoricalData getTime currentTime d s timeRange) responses)) = []"
proof
  assume a: "timeRange \<noteq> ''24h'' \<and> timeRange \<noteq> ''7d'' \<and> timeRange \<noteq> ''1m''"
  then have cut: "cutoffTime_of currentTime timeRange = None"
    by (simp add: cutoffTime_of_def)
  have nan: "js_ge t NaN = False" for t
    by (cases t) (simp_all add: js_ge_def)
  have one: "fetchHistoricalData getTime currentTime d s timeRange
           = \<lparr> symbol = s, timestamps = [], prices = [] \<rparr>" for d s
    by (simp add: fetchHistoricalData_def cut nan Let_def)
  have "labels_of (map (\<lambda>(s, d). fetchHistoricalData getTime currentTime d s timeRange) responses) = []"
  proof -
    have "set (labels_of (map (\<lambda>(s, d). fetchHistoricalData getTime currentTime d s timeRange) responses)) = {}"
      unfolding set_labels_of by (auto simp: one)
    then show ?thesis by simp
  qed
  with one show "fetchHistoricalData getTime currentTime data symb timeRange
           = \<lparr> symbol = symb, timestamps = [], prices = [] \<rparr>
       \<and> labels (processChartData getTime
            (map (\<lambda>(s, d). fetchHistoricalData getTime currentTime d s timeRange) responses)) = []"
    by (simp add: labels_processChartData)
qed

theorem unknown_range_discards_all_witness:
  "''1y'' \<noteq> ''24h'' \<and> ''1y'' \<noteq> ''7d'' \<and> ''1y'' \<noteq> ''1m''
   \<and> fetchHistoricalData Date_getTime 1714564800000
        \<lparr> data_timestamps = [''2024-05-01T11:00:00Z'', ''2024-04-30T13:00:00Z''],
          data_prices = [Some 100, Some 110] \<rparr> ''btc'' ''1y''
      = \<lparr> symbol = ''btc'', timestamps = [], prices = [] \<rparr>
   \<and> fetchHistoricalData Date_getTime 1714564800000
        \<lparr> data_timestamps = [''2024-05-01T11:00:00Z'', ''2024-04-30T11:00:00Z''],
          data_prices = [Some 100, Some 110] \<rparr> ''btc'' ''24h''
      = \<lparr> symbol = ''btc'', timestamps = [''2024-05-01T11:00:00Z''], prices = [Some 100] \<rparr>"
proof -
  have h: "''1y'' \<noteq> ''24h'' \<and> ''1y'' \<noteq> ''7d'' \<and> ''1y'' \<noteq> ''1m''" by simp
  have r: "fetchHistoricalData Date_getTime 1714564800000
        \<lparr> data_timestamps = [''2024-05-01T11:00:00Z'', ''2024-04-30T11:00:00Z''],
          data_prices = [Some 100, Some 110] \<rparr> ''btc'' ''24h''
      = \<lparr> symbol = ''btc'', timestamps = [''2024-05-01T11:00:00Z''], prices = [Some 100] \<rparr>"
    by code_simp
  from unknown_range_discards_all [of "''1y''" Date_getTime 1714564800000
      "\<lparr> data_timestamps = [''2024-05-01T11:00:00Z'', ''2024-04-30T13:00:00Z''],
          data_prices = [Some 100, Some 110] \<rparr>" "''btc''" "[]"] h r
  show ?thesis by blast
qed

end
